theory Spec2Isabelle
  imports Main
begin

section \<open>Notebook metadata and kernel connections\<close>

text \<open>
  The data of \<^verbatim>\<open>src/client/api/serviceRegistry.ts\<close> (second document of the file:
  the notebook model module). A JSON object is a record, an optional property is an
  \<open>option\<close> (\<open>None\<close> is JavaScript's \<open>undefined\<close>), and an object that the code mutates
  in place is passed in and returned updated. Record fields carry a short prefix where
  two objects of the source share a property name (\<open>name\<close>, \<open>version\<close>, \<open>metadata\<close>,
  \<open>kernelId\<close>).
\<close>

datatype JSONValue = JNull | JBoolean bool | JNumber int | JString string

record CodemirrorMode =
  cm_name :: string
  cm_version :: int

record ILanguageInfoMetadata =
  codemirror_mode :: "CodemirrorMode option"
  file_extension :: "string option"
  mimetype :: "string option"
  li_name :: string
  nbconvert_exporter :: "string option"
  pygments_lexer :: "string option"
  li_version :: "JSONValue option"

record InterpreterRef =
  hash :: string

record KernelspecExtra =
  ks_interpreter :: "InterpreterRef option"

record IKernelspecMetadata =
  ks_name :: string
  ks_display_name :: string
  ks_metadata :: "KernelspecExtra option"

record INotebookMetadata =
  language_info :: "ILanguageInfoMetadata option"
  kernelspec :: "IKernelspecMetadata option"
  orig_nbformat :: "int option"

text \<open>
  The kernel connection and the interpreter are declared outside the file
  (\<^verbatim>\<open>../jupyter/kernels/types\<close>); the records below have exactly the properties that
  \<^verbatim>\<open>updateNotebookMetadata\<close> reads: \<open>kind\<close>, \<open>kernelModel\<close>, \<open>kernelSpec\<close>,
  \<open>interpreter\<close> of a connection, \<open>name\<close>, \<open>display_name\<close>, \<open>id\<close> of a kernel spec or
  kernel model, and \<open>displayName\<close>, \<open>path\<close>, \<open>version.raw\<close> of an interpreter.
\<close>

record PythonVersion =
  raw :: string

record PythonEnvironment =
  displayName :: "string option"
  path :: string
  version :: "PythonVersion option"

record KernelSpecOrModel =
  sm_name :: "string option"
  sm_display_name :: "string option"
  sm_id :: "string option"

record KernelConnectionMetadata =
  kind :: string
  kernelModel :: "KernelSpecOrModel option"
  kernelSpec :: "KernelSpecOrModel option"
  interpreter :: "PythonEnvironment option"

record UpdateResult =
  changed :: bool
  kernelId :: "string option"

text \<open>
  Reading a property of \<open>undefined\<close> throws a \<open>TypeError\<close> in JavaScript. The only such
  read that no guard protects is \<^verbatim>\<open>kernelConnection.interpreter.displayName\<close> (line 111),
  which the declared type of a \<^verbatim>\<open>'startUsingPythonInterpreter'\<close> connection rules out.
\<close>

datatype JSError = TypeError

definition connectionWellTyped :: "KernelConnectionMetadata option \<Rightarrow> bool" where
  "connectionWellTyped kc =
     (case kc of
        None \<Rightarrow> True
      | Some c \<Rightarrow> kind c = ''startUsingPythonInterpreter'' \<longrightarrow> interpreter c \<noteq> None)"

text \<open>JavaScript's \<^verbatim>\<open>a || b\<close> on an optional string: \<open>undefined\<close> and \<open>''\<close> are falsy.\<close>

definition orElse :: "string option \<Rightarrow> string \<Rightarrow> string" where
  "orElse a b = (case a of None \<Rightarrow> b | Some s \<Rightarrow> if s = [] then b else s)"

section \<open>updateNotebookMetadata\<close>

text \<open>
  Lines 66 to 81: the language_info step, given the interpreter that
  \<^verbatim>\<open>getInterpreterFromKernelConnectionMetadata\<close> returned. The result is the metadata
  after the step and the value of the local \<open>changed\<close>.
\<close>

definition updateLanguageInfo ::
  "PythonEnvironment option \<Rightarrow> INotebookMetadata \<Rightarrow> INotebookMetadata \<times> bool" where
  "updateLanguageInfo interp md =
     (case interp of
        Some i \<Rightarrow>
          (case version i of
             Some v \<Rightarrow>
               (case language_info md of
                  Some li \<Rightarrow>
                    if li_version li \<noteq> Some (JString (raw v))
                    then (md\<lparr>language_info := Some (li\<lparr>li_version := Some (JString (raw v))\<rparr>)\<rparr>, True)
                    else (md, False)
                | None \<Rightarrow> (md, False))
           | None \<Rightarrow> (md, False))
      | None \<Rightarrow>
          (case language_info md of
             Some li \<Rightarrow> (md\<lparr>language_info := None\<rparr>, True)
           | None \<Rightarrow> (md, False)))"

text \<open>Lines 83 to 86: the kernel model of a live connection, the kernel spec otherwise.\<close>

definition kernelSpecOrModel ::
  "(KernelConnectionMetadata \<Rightarrow> bool) \<Rightarrow> KernelConnectionMetadata option \<Rightarrow> KernelSpecOrModel option" where
  "kernelSpecOrModel hasKernelModel kc =
     (case kc of
        None \<Rightarrow> None
      | Some c \<Rightarrow> if hasKernelModel c then kernelModel c else kernelSpec c)"

text \<open>
  Lines 87 to 125: the kernelspec step, from the metadata and the value of \<open>changed\<close>
  that the language_info step left. The local \<open>kernelId\<close> is still \<open>undefined\<close> when
  line 102 compares it with the id of the spec.
\<close>

definition updateKernelspec ::
  "(KernelConnectionMetadata \<Rightarrow> bool) \<Rightarrow> (string \<Rightarrow> string) \<Rightarrow> INotebookMetadata \<Rightarrow> bool \<Rightarrow>
   KernelConnectionMetadata option \<Rightarrow> JSError + (INotebookMetadata \<times> UpdateResult)" where
  "updateKernelspec hasKernelModel sha256hex md changed0 kc =
     (case kernelSpecOrModel hasKernelModel kc of
        Some sm \<Rightarrow>
          (let name = orElse (sm_name sm) (orElse (sm_display_name sm) []);
               displayName' = orElse (sm_display_name sm) (orElse (sm_name sm) [])
           in case kernelspec md of
                None \<Rightarrow>
                  Inr (md\<lparr>kernelspec :=
                             Some \<lparr>ks_name = name, ks_display_name = displayName', ks_metadata = None\<rparr>\<rparr>,
                       \<lparr>changed = True, kernelId = sm_id sm\<rparr>)
              | Some ks \<Rightarrow>
                  if ks_name ks \<noteq> name \<or> ks_display_name ks \<noteq> displayName' \<or> None \<noteq> sm_id sm
                  then Inr (md\<lparr>kernelspec :=
                                  Some (ks\<lparr>ks_name := name, ks_display_name := displayName'\<rparr>)\<rparr>,
                            \<lparr>changed = True, kernelId = sm_id sm\<rparr>)
                  else Inr (md, \<lparr>changed = changed0, kernelId = None\<rparr>))
      | None \<Rightarrow>
          (case kc of
             None \<Rightarrow> Inr (md, \<lparr>changed = changed0, kernelId = None\<rparr>)
           | Some c \<Rightarrow>
               if kind c = ''startUsingPythonInterpreter''
               then (case interpreter c of
                       None \<Rightarrow> Inl TypeError
                     | Some i \<Rightarrow>
                         (let name = orElse (displayName i) (path i)
                          in if map_option ks_name (kernelspec md) \<noteq> Some name
                                \<or> map_option ks_display_name (kernelspec md) \<noteq> Some name
                             then Inr (md\<lparr>kernelspec :=
                                             Some \<lparr>ks_name = name, ks_display_name = name,
                                                   ks_metadata =
                                                     Some \<lparr>ks_interpreter =
                                                             Some \<lparr>hash = sha256hex (path i)\<rparr>\<rparr>\<rparr>\<rparr>,
                                       \<lparr>changed = True, kernelId = None\<rparr>)
                             else Inr (md, \<lparr>changed = changed0, kernelId = None\<rparr>)))
               else Inr (md, \<lparr>changed = changed0, kernelId = None\<rparr>)))"

text \<open>
  The whole function. Its two helpers of \<^verbatim>\<open>../jupyter/kernels/helpers\<close> and the
  \<open>sha256\<close> hex digest of \<^verbatim>\<open>hash.js\<close> are parameters: \<open>getInterpreter\<close> is
  \<^verbatim>\<open>getInterpreterFromKernelConnectionMetadata\<close>, \<open>hasKernelModel\<close> is
  \<^verbatim>\<open>kernelConnectionMetadataHasKernelModel\<close>, \<open>sha256hex s\<close> is
  \<^verbatim>\<open>sha256().update(s).digest('hex')\<close>. The metadata argument is returned as the call
  leaves it.
\<close>

definition updateNotebookMetadata ::
  "(KernelConnectionMetadata option \<Rightarrow> PythonEnvironment option) \<Rightarrow>
   (KernelConnectionMetadata \<Rightarrow> bool) \<Rightarrow> (string \<Rightarrow> string) \<Rightarrow>
   INotebookMetadata option \<Rightarrow> KernelConnectionMetadata option \<Rightarrow>
   JSError + (INotebookMetadata option \<times> UpdateResult)" where
  "updateNotebookMetadata getInterpreter hasKernelModel sha256hex metadata kc =
     (case metadata of
        None \<Rightarrow> Inr (None, \<lparr>changed = False, kernelId = None\<rparr>)
      | Some md \<Rightarrow>
          (let (md1, changed1) = updateLanguageInfo (getInterpreter kc) md
           in case updateKernelspec hasKernelModel sha256hex md1 changed1 kc of
                Inl e \<Rightarrow> Inl e
              | Inr (md2, r) \<Rightarrow> Inr (Some md2, r)))"

section \<open>Default notebook content\<close>

text \<open>
  The template literal of line 141 prints the number in decimal. The python number is
  the major version of the language (2 or 3), so the JavaScript number is an \<open>int\<close>.
\<close>

fun showNat :: "nat \<Rightarrow> string" where
  "showNat n =
     (if n < 10 then [''0123456789'' ! n]
      else showNat (n div 10) @ [''0123456789'' ! (n mod 10)])"

declare showNat.simps [simp del]

definition showInt :: "int \<Rightarrow> string" where
  "showInt i = (if i < 0 then CHR ''-'' # showNat (nat (- i)) else showNat (nat i))"

text \<open>The cells of the JSON document (\<^verbatim>\<open>nbformat.ICell\<close>) are a type parameter.\<close>

record 'jc INotebookContent =
  metadata :: "INotebookMetadata option"
  nbformat :: "int option"
  nbformat_minor :: "int option"
  cells :: "'jc list option"

definition emptyContent :: "'jc INotebookContent" where
  "emptyContent = \<lparr>metadata = None, nbformat = None, nbformat_minor = None, cells = None\<rparr>"

definition getDefaultNotebookContent :: "int option \<Rightarrow> 'jc INotebookContent" where
  "getDefaultNotebookContent pythonNumberArg =
     (let pythonNumber = (case pythonNumberArg of None \<Rightarrow> 3 | Some n \<Rightarrow> n);
          md = \<lparr>language_info =
                  Some \<lparr>codemirror_mode = Some \<lparr>cm_name = ''ipython'', cm_version = pythonNumber\<rparr>,
                        file_extension = Some ''.py'',
                        mimetype = Some ''text/x-python'',
                        li_name = ''python'',
                        nbconvert_exporter = Some ''python'',
                        pygments_lexer = Some (''ipython'' @ showInt pythonNumber),
                        li_version = Some (JNumber pythonNumber)\<rparr>,
                kernelspec = None,
                orig_nbformat = Some 2\<rparr>
      in \<lparr>metadata = Some md, nbformat = Some 4, nbformat_minor = Some 2, cells = None\<rparr>)"

section \<open>BaseNotebookModel\<close>

definition ActiveKernelIdList :: string where
  "ActiveKernelIdList = ''Active_Kernel_Id_List''"

definition MaximumKernelIdListSize :: nat where
  "MaximumKernelIdListSize = 40"

record KernelIdListEntry =
  fileHash :: string
  entry_kernelId :: "string option"

text \<open>
  The host's memento, as far as the model reads it: the kernel-id list stored under a
  key, if any. \<^verbatim>\<open>get(key, defaultValue)\<close> returns the default for a key that holds
  nothing.
\<close>

type_synonym Memento = "string \<Rightarrow> KernelIdListEntry list option"

definition memento_get :: "Memento \<Rightarrow> string \<Rightarrow> KernelIdListEntry list \<Rightarrow> KernelIdListEntry list" where
  "memento_get m key defaultValue = (case m key of None \<Rightarrow> defaultValue | Some v \<Rightarrow> v)"

text \<open>
  The fields of the class. \<open>m_isTrusted\<close>, \<open>m_file\<close>, \<open>m_isDisposed\<close> and \<open>m_kernelId\<close> are
  \<^verbatim>\<open>_isTrusted\<close>, \<^verbatim>\<open>_file\<close>, \<^verbatim>\<open>_isDisposed\<close> and the private \<^verbatim>\<open>kernelId\<close>. The file
  is the \<open>Uri\<close> in the form its \<^verbatim>\<open>toString()\<close> gives; \<open>crypto\<close> is
  \<^verbatim>\<open>crypto.createHash(_, 'string')\<close>; \<open>disposedFired\<close> counts the events that the
  \<^verbatim>\<open>_disposed\<close> emitter has fired (the other two emitters never fire in this class).
\<close>

record 'jc BaseNotebookModel =
  m_isTrusted :: bool
  m_file :: string
  globalMemento :: Memento
  crypto :: "string \<Rightarrow> string"
  notebookJson :: "'jc INotebookContent option"
  indentAmount :: string
  pythonNumber :: int
  m_isDisposed :: "bool option"
  disposedFired :: nat
  m_kernelId :: "string option"

definition ensureNotebookJson :: "'jc BaseNotebookModel \<Rightarrow> 'jc BaseNotebookModel" where
  "ensureNotebookJson s =
     (if (case notebookJson s of None \<Rightarrow> True | Some j \<Rightarrow> metadata j = None)
      then s\<lparr>notebookJson := Some (getDefaultNotebookContent (Some (pythonNumber s)))\<rparr>
      else s)"

text \<open>
  Lines 251 to 260. The value that \<^verbatim>\<open>get\<close> returns is an array, which is truthy even
  when empty, so the test of line 254 always succeeds.
\<close>

definition getStoredKernelId :: "'jc BaseNotebookModel \<Rightarrow> string option" where
  "getStoredKernelId s =
     (let list = memento_get (globalMemento s) ActiveKernelIdList [];
          h = crypto s (m_file s)
      in case find (\<lambda>l. fileHash l = h) list of
           None \<Rightarrow> None
         | Some entry \<Rightarrow> entry_kernelId entry)"

text \<open>
  The constructor, lines 196 to 207. An argument left \<open>undefined\<close> takes its default:
  \<open>{}\<close> for the notebook JSON, one space for the indent, 3 for the python number.
\<close>

definition BaseNotebookModel_new ::
  "bool \<Rightarrow> string \<Rightarrow> Memento \<Rightarrow> (string \<Rightarrow> string) \<Rightarrow> 'jc INotebookContent option \<Rightarrow>
   string option \<Rightarrow> int option \<Rightarrow> 'jc BaseNotebookModel" where
  "BaseNotebookModel_new isTrustedArg fileArg memento cryptoArg notebookJsonArg indentArg pythonNumberArg =
     (let s0 = \<lparr>m_isTrusted = isTrustedArg,
                m_file = fileArg,
                globalMemento = memento,
                crypto = cryptoArg,
                notebookJson = Some (case notebookJsonArg of None \<Rightarrow> emptyContent | Some j \<Rightarrow> j),
                indentAmount = (case indentArg of None \<Rightarrow> '' '' | Some a \<Rightarrow> a),
                pythonNumber = (case pythonNumberArg of None \<Rightarrow> 3 | Some n \<Rightarrow> n),
                m_isDisposed = None,
                disposedFired = 0,
                m_kernelId = None\<rparr>;
          s1 = ensureNotebookJson s0
      in s1\<lparr>m_kernelId := getStoredKernelId s1\<rparr>)"

text \<open>The getters.\<close>

definition get_isDisposed :: "'jc BaseNotebookModel \<Rightarrow> bool" where
  "get_isDisposed s = (m_isDisposed s = Some True)"

definition get_isDirty :: "'jc BaseNotebookModel \<Rightarrow> bool" where
  "get_isDirty s = False"

definition get_isTrusted :: "'jc BaseNotebookModel \<Rightarrow> bool" where
  "get_isTrusted s = m_isTrusted s"

text \<open>\<open>getICells\<close> is the method a subclass overrides; the base class returns \<open>[]\<close>.\<close>

definition get_cells :: "('jc BaseNotebookModel \<Rightarrow> 'c list) \<Rightarrow> 'jc BaseNotebookModel \<Rightarrow> 'c list" where
  "get_cells getICells s = (if get_isDisposed s then [] else getICells s)"

definition getICells_base :: "'jc BaseNotebookModel \<Rightarrow> 'c list" where
  "getICells_base s = []"

definition getJupyterCells_base :: "'jc BaseNotebookModel \<Rightarrow> 'jc list option" where
  "getJupyterCells_base s = Some []"

text \<open>The methods. Spreading \<open>undefined\<close> into an object literal gives \<open>{}\<close>.\<close>

definition dispose :: "'jc BaseNotebookModel \<Rightarrow> 'jc BaseNotebookModel" where
  "dispose s = s\<lparr>m_isDisposed := Some True, disposedFired := Suc (disposedFired s)\<rparr>"

definition trust :: "'jc BaseNotebookModel \<Rightarrow> 'jc BaseNotebookModel" where
  "trust s = s\<lparr>m_isTrusted := True\<rparr>"

definition generateNotebookJson ::
  "('jc BaseNotebookModel \<Rightarrow> 'jc list option) \<Rightarrow> 'jc BaseNotebookModel \<Rightarrow>
   'jc BaseNotebookModel \<times> 'jc INotebookContent" where
  "generateNotebookJson getJupyterCells s =
     (let s1 = ensureNotebookJson s;
          json = (case notebookJson s1 of None \<Rightarrow> emptyContent | Some j \<Rightarrow> j)
      in (s1, json\<lparr>cells := getJupyterCells s1\<rparr>))"

definition getRawContent ::
  "('jc BaseNotebookModel \<Rightarrow> 'jc list option) \<Rightarrow> 'jc BaseNotebookModel \<Rightarrow>
   'jc BaseNotebookModel \<times> 'jc INotebookContent" where
  "getRawContent getJupyterCells s = generateNotebookJson getJupyterCells s"

text \<open>\<open>stringify json indent\<close> is \<^verbatim>\<open>JSON.stringify(json, null, indent)\<close>.\<close>

definition getContent ::
  "('jc INotebookContent \<Rightarrow> string \<Rightarrow> string) \<Rightarrow> ('jc BaseNotebookModel \<Rightarrow> 'jc list option) \<Rightarrow>
   'jc BaseNotebookModel \<Rightarrow> 'jc BaseNotebookModel \<times> string" where
  "getContent stringify getJupyterCells s =
     (let (s1, json) = generateNotebookJson getJupyterCells s
      in (s1, stringify json (indentAmount s1)))"

text \<open>A run of the class's public methods, by their effect on the fields.\<close>

datatype ModelOp = OpDispose | OpTrust | OpGetContent | OpGetRawContent

fun applyOp ::
  "('jc BaseNotebookModel \<Rightarrow> 'jc list option) \<Rightarrow> 'jc BaseNotebookModel \<Rightarrow> ModelOp \<Rightarrow>
   'jc BaseNotebookModel" where
  "applyOp getJupyterCells s OpDispose = dispose s"
| "applyOp getJupyterCells s OpTrust = trust s"
| "applyOp getJupyterCells s OpGetContent = fst (generateNotebookJson getJupyterCells s)"
| "applyOp getJupyterCells s OpGetRawContent = fst (getRawContent getJupyterCells s)"

definition applyOps ::
  "('jc BaseNotebookModel \<Rightarrow> 'jc list option) \<Rightarrow> 'jc BaseNotebookModel \<Rightarrow> ModelOp list \<Rightarrow>
   'jc BaseNotebookModel" where
  "applyOps getJupyterCells s ops = foldl (applyOp getJupyterCells) s ops"

section \<open>Writing the kernel-id list\<close>

text \<open>
  Modelled from the spec: the operation that writes the list stored under
  \<open>Active_Kernel_Id_List\<close> is not in the file, which only reads it (getStoredKernelId).
  The spec calls the list "a capped (40-entry) association list persisted in host
  storage, used to remember which kernel was last used for a given file"; the comments
  of lines 47 and 255 say that the last 40 items are remembered. So a write replaces
  the entry of the file's hash, puts the new entry last and keeps the last
  \<open>MaximumKernelIdListSize\<close> entries.
\<close>

definition storeKernelId ::
  "KernelIdListEntry list \<Rightarrow> string \<Rightarrow> string option \<Rightarrow> KernelIdListEntry list" where
  "storeKernelId list h kid =
     (let added = filter (\<lambda>l. fileHash l \<noteq> h) list @ [\<lparr>fileHash = h, entry_kernelId = kid\<rparr>]
      in drop (length added - MaximumKernelIdListSize) added)"

section \<open>Sample data\<close>

text \<open>
  Concrete helpers, connections and documents on which the theorems below are
  instantiated. The sample helpers read the interpreter off the connection and take a
  live connection to be the one that carries a kernel model; the sample digest and the
  sample file hash only tag their argument.
\<close>

definition sampleGetInterpreter :: "KernelConnectionMetadata option \<Rightarrow> PythonEnvironment option" where
  "sampleGetInterpreter kc = (case kc of None \<Rightarrow> None | Some c \<Rightarrow> interpreter c)"

definition sampleHasKernelModel :: "KernelConnectionMetadata \<Rightarrow> bool" where
  "sampleHasKernelModel c = (kind c = ''connectToLiveKernel'')"

definition sampleSha256hex :: "string \<Rightarrow> string" where
  "sampleSha256hex p = ''sha256:'' @ p"

definition sampleCrypto :: "string \<Rightarrow> string" where
  "sampleCrypto u = ''hash:'' @ u"

definition sampleInterpreter :: PythonEnvironment where
  "sampleInterpreter =
     \<lparr>displayName = Some ''Python 3.8.1'', path = ''/usr/bin/python3'',
      version = Some \<lparr>raw = ''3.8.1''\<rparr>\<rparr>"

definition sampleSpec :: KernelSpecOrModel where
  "sampleSpec = \<lparr>sm_name = Some ''python3'', sm_display_name = None, sm_id = Some ''spec-1''\<rparr>"

definition sampleSpecConnection :: KernelConnectionMetadata where
  "sampleSpecConnection =
     \<lparr>kind = ''startUsingKernelSpec'', kernelModel = None, kernelSpec = Some sampleSpec,
      interpreter = Some sampleInterpreter\<rparr>"

definition samplePythonConnection :: KernelConnectionMetadata where
  "samplePythonConnection =
     \<lparr>kind = ''startUsingPythonInterpreter'', kernelModel = None, kernelSpec = None,
      interpreter = Some sampleInterpreter\<rparr>"

definition sampleLanguageInfo :: "string \<Rightarrow> ILanguageInfoMetadata" where
  "sampleLanguageInfo v =
     \<lparr>codemirror_mode = None, file_extension = Some ''.py'', mimetype = None,
      li_name = ''python'', nbconvert_exporter = None, pygments_lexer = None,
      li_version = Some (JString v)\<rparr>"

definition sampleMetadata :: "string \<Rightarrow> IKernelspecMetadata option \<Rightarrow> INotebookMetadata" where
  "sampleMetadata v ks =
     \<lparr>language_info = Some (sampleLanguageInfo v), kernelspec = ks, orig_nbformat = Some 2\<rparr>"

definition sampleKernelspec :: IKernelspecMetadata where
  "sampleKernelspec =
     \<lparr>ks_name = ''Python 3.8.1'', ks_display_name = ''Python 3.8.1'', ks_metadata = None\<rparr>"

definition sampleList :: "KernelIdListEntry list" where
  "sampleList =
     [\<lparr>fileHash = ''hash:file:///b.ipynb'', entry_kernelId = Some ''kernel-b''\<rparr>,
      \<lparr>fileHash = ''hash:file:///a.ipynb'', entry_kernelId = Some ''kernel-a1''\<rparr>,
      \<lparr>fileHash = ''hash:file:///a.ipynb'', entry_kernelId = Some ''kernel-a2''\<rparr>]"

definition sampleMemento :: Memento where
  "sampleMemento key = (if key = ActiveKernelIdList then Some sampleList else None)"

definition sampleModel :: "string BaseNotebookModel" where
  "sampleModel =
     BaseNotebookModel_new False ''file:///a.ipynb'' sampleMemento sampleCrypto None None None"

text \<open>
  A model on an empty memento, and the same model after \<^verbatim>\<open>updateNotebookMetadata\<close>,
  called without a connection on the metadata object of its document, has cleared the
  language_info block in place (the \<open>metadata\<close> getter hands out the object itself while
  no kernel id is stored).
\<close>

definition sampleFreshModel :: "string BaseNotebookModel" where
  "sampleFreshModel =
     BaseNotebookModel_new False ''file:///a.ipynb'' (\<lambda>key. None) sampleCrypto None None None"

definition sampleClearedMetadata :: INotebookMetadata where
  "sampleClearedMetadata = \<lparr>language_info = None, kernelspec = None, orig_nbformat = Some 2\<rparr>"

definition sampleEditedModel :: "string BaseNotebookModel" where
  "sampleEditedModel =
     sampleFreshModel
       \<lparr>notebookJson :=
          Some ((getDefaultNotebookContent (Some 3))\<lparr>metadata := Some sampleClearedMetadata\<rparr>)\<rparr>"

definition sampleICells :: "string BaseNotebookModel \<Rightarrow> string list" where
  "sampleICells s = [''cell-1'', ''cell-2'']"

section \<open>Properties of updateNotebookMetadata\<close>

lemmas sample_defs =
  sampleGetInterpreter_def sampleHasKernelModel_def sampleSha256hex_def sampleInterpreter_def
  sampleSpec_def sampleSpecConnection_def samplePythonConnection_def sampleLanguageInfo_def
  sampleMetadata_def sampleKernelspec_def

lemmas update_defs =
  updateNotebookMetadata_def updateLanguageInfo_def updateKernelspec_def kernelSpecOrModel_def
  orElse_def connectionWellTyped_def Let_def

subsection \<open>Records that an update leaves equal\<close>

lemma li_version_update_same:
  "li\<lparr>li_version := v\<rparr> = li \<Longrightarrow> li_version li = v"
  by (drule arg_cong [where f = li_version]) simp

lemma ks_names_update_same:
  "ks\<lparr>ks_name := n, ks_display_name := d\<rparr> = ks \<Longrightarrow> ks_name ks = n \<and> ks_display_name ks = d"
  by (frule arg_cong [where f = ks_name], drule arg_cong [where f = ks_display_name]) simp

subsection \<open>The two steps\<close>

lemma updateLanguageInfo_unchanged:
  "updateLanguageInfo interp md = (md1, False) \<Longrightarrow> md1 = md"
  by (auto simp: updateLanguageInfo_def split: option.splits if_splits)

lemma updateLanguageInfo_changed:
  "updateLanguageInfo interp md = (md1, True) \<Longrightarrow> language_info md1 \<noteq> language_info md"
  by (auto simp: updateLanguageInfo_def split: option.splits if_splits dest: li_version_update_same)

lemma updateLanguageInfo_kernelspec:
  "updateLanguageInfo interp md = (md1, c) \<Longrightarrow> kernelspec md1 = kernelspec md"
  by (auto simp: updateLanguageInfo_def split: option.splits if_splits)

lemma updateKernelspec_language_info:
  "updateKernelspec hasKernelModel sha256hex md c0 kc = Inr (md', r) \<Longrightarrow>
   language_info md' = language_info md"
  by (auto simp: updateKernelspec_def Let_def split: option.splits if_splits)

lemma updateKernelspec_no_error:
  "connectionWellTyped kc \<Longrightarrow>
   \<exists>md' r. updateKernelspec hasKernelModel sha256hex md c0 kc = Inr (md', r)"
  by (auto simp: updateKernelspec_def connectionWellTyped_def Let_def split: option.splits if_splits)

lemma updateKernelspec_not_changed:
  "updateKernelspec hasKernelModel sha256hex md c0 kc = Inr (md', r) \<Longrightarrow> \<not> changed r \<Longrightarrow>
   md' = md \<and> \<not> c0"
  by (auto simp: updateKernelspec_def Let_def split: option.splits if_splits)

lemma updateKernelspec_changed:
  "updateKernelspec hasKernelModel sha256hex md c0 kc = Inr (md', r) \<Longrightarrow> changed r \<Longrightarrow>
   c0 \<or> kernelspec md' \<noteq> kernelspec md \<or> kernelId r \<noteq> None"
  by (cases "kernelspec md")
     (auto simp: updateKernelspec_def Let_def split: option.splits if_splits
           dest: ks_names_update_same)

lemma updateKernelspec_keeps_changed:
  "updateKernelspec hasKernelModel sha256hex md True kc = Inr (md', r) \<Longrightarrow> changed r"
  by (auto simp: updateKernelspec_def Let_def split: option.splits if_splits)

lemma updateKernelspec_python:
  "kind c = ''startUsingPythonInterpreter'' \<Longrightarrow> kernelSpecOrModel hasKernelModel (Some c) = None \<Longrightarrow>
   interpreter c = Some i \<Longrightarrow>
   updateKernelspec hasKernelModel sha256hex md c0 (Some c)
     = (if map_option ks_name (kernelspec md) \<noteq> Some (orElse (displayName i) (path i))
           \<or> map_option ks_display_name (kernelspec md) \<noteq> Some (orElse (displayName i) (path i))
        then Inr (md\<lparr>kernelspec :=
                        Some \<lparr>ks_name = orElse (displayName i) (path i),
                              ks_display_name = orElse (displayName i) (path i),
                              ks_metadata =
                                Some \<lparr>ks_interpreter = Some \<lparr>hash = sha256hex (path i)\<rparr>\<rparr>\<rparr>\<rparr>,
                  \<lparr>changed = True, kernelId = None\<rparr>)
        else Inr (md, \<lparr>changed = c0, kernelId = None\<rparr>))"
  by (simp add: updateKernelspec_def Let_def)

subsection \<open>The claims\<close>

text \<open>
  C6: called with an absent metadata argument, \<^verbatim>\<open>updateNotebookMetadata\<close> returns
  at once with \<open>changed = false\<close> and \<open>kernelId = undefined\<close>; there is nothing to mutate
  and no error is raised, whatever the kernel connection is.
\<close>

theorem updateNotebookMetadata_absent_metadata:
  "updateNotebookMetadata getInterpreter hasKernelModel sha256hex None kc =
     Inr (None, \<lparr>changed = False, kernelId = None\<rparr>)"
  by (simp add: updateNotebookMetadata_def)

text \<open>
  C1: \<^verbatim>\<open>updateNotebookMetadata\<close> changes the metadata only where a value differs. For
  every metadata object and every connection of the declared type the call returns,
  and: if \<open>changed\<close> is false, the metadata is exactly as it was; if \<open>changed\<close> is true,
  the metadata after the call differs from the metadata before it, or a kernel id is
  returned (the local \<open>kernelId\<close> starts out \<open>undefined\<close>, and line 102 counts a defined id
  of the spec as a difference even when name and display_name stay as they are).
\<close>

theorem updateNotebookMetadata_changed_flag:
  assumes "connectionWellTyped kc"
  shows "\<exists>md' r. updateNotebookMetadata getInterpreter hasKernelModel sha256hex (Some md) kc
                    = Inr (Some md', r)
               \<and> (\<not> changed r \<longrightarrow> md' = md)
               \<and> (changed r \<longrightarrow> md' \<noteq> md \<or> kernelId r \<noteq> None)"
proof -
  obtain md1 c1 where s1: "updateLanguageInfo (getInterpreter kc) md = (md1, c1)"
    by (cases "updateLanguageInfo (getInterpreter kc) md") auto
  obtain md2 r where s2: "updateKernelspec hasKernelModel sha256hex md1 c1 kc = Inr (md2, r)"
    using updateKernelspec_no_error [OF assms] by blast
  have res: "updateNotebookMetadata getInterpreter hasKernelModel sha256hex (Some md) kc
               = Inr (Some md2, r)"
    by (simp add: updateNotebookMetadata_def s1 s2)
  have a: "md2 = md" if "\<not> changed r"
  proof -
    from updateKernelspec_not_changed [OF s2 that] have "md2 = md1" and "\<not> c1" by auto
    with s1 updateLanguageInfo_unchanged show ?thesis by auto
  qed
  have b: "md2 \<noteq> md \<or> kernelId r \<noteq> None" if "changed r"
  proof (cases c1)
    case True
    with s1 have "language_info md1 \<noteq> language_info md"
      using updateLanguageInfo_changed by auto
    moreover have "language_info md2 = language_info md1"
      using updateKernelspec_language_info [OF s2] .
    ultimately show ?thesis by auto
  next
    case False
    with s1 have "md1 = md" using updateLanguageInfo_unchanged by auto
    moreover from updateKernelspec_changed [OF s2 that] False
    have "kernelspec md2 \<noteq> kernelspec md1 \<or> kernelId r \<noteq> None" by auto
    ultimately show ?thesis by auto
  qed
  from res a b show ?thesis by blast
qed

text \<open>
  The theorem at three inputs: a kernel spec connection on a document with no
  kernelspec and an older version (both blocks change); the same connection on a
  document that already has the spec's names (only the kernel id is new); a Python
  interpreter connection on a document that already names the interpreter (nothing
  changes).
\<close>

theorem updateNotebookMetadata_changed_flag_witness:
  "connectionWellTyped (Some sampleSpecConnection)
   \<and> updateNotebookMetadata sampleGetInterpreter sampleHasKernelModel sampleSha256hex
         (Some (sampleMetadata ''3.7.0'' None)) (Some sampleSpecConnection)
       = Inr (Some (sampleMetadata ''3.8.1''
                      (Some \<lparr>ks_name = ''python3'', ks_display_name = ''python3'', ks_metadata = None\<rparr>)),
              \<lparr>changed = True, kernelId = Some ''spec-1''\<rparr>)
   \<and> sampleMetadata ''3.8.1''
         (Some \<lparr>ks_name = ''python3'', ks_display_name = ''python3'', ks_metadata = None\<rparr>)
       \<noteq> sampleMetadata ''3.7.0'' None
   \<and> updateNotebookMetadata sampleGetInterpreter sampleHasKernelModel sampleSha256hex
         (Some (sampleMetadata ''3.8.1''
                  (Some \<lparr>ks_name = ''python3'', ks_display_name = ''python3'', ks_metadata = None\<rparr>)))
         (Some sampleSpecConnection)
       = Inr (Some (sampleMetadata ''3.8.1''
                      (Some \<lparr>ks_name = ''python3'', ks_display_name = ''python3'', ks_metadata = None\<rparr>)),
              \<lparr>changed = True, kernelId = Some ''spec-1''\<rparr>)
   \<and> connectionWellTyped (Some samplePythonConnection)
   \<and> updateNotebookMetadata sampleGetInterpreter sampleHasKernelModel sampleSha256hex
         (Some (sampleMetadata ''3.8.1'' (Some sampleKernelspec))) (Some samplePythonConnection)
       = Inr (Some (sampleMetadata ''3.8.1'' (Some sampleKernelspec)),
              \<lparr>changed = False, kernelId = None\<rparr>)"
  using updateNotebookMetadata_changed_flag
          [of "Some sampleSpecConnection" sampleGetInterpreter sampleHasKernelModel sampleSha256hex
              "sampleMetadata ''3.7.0'' None"]
  by (simp add: sample_defs update_defs)

text \<open>
  C2: when the metadata has a language_info block and the helper derives an
  interpreter with a version from the connection, the language_info step (lines 66 to
  75) writes the interpreter's raw version string into \<open>language_info.version\<close> and sets
  \<open>changed\<close> exactly when the stored version differs from it; with equal versions the
  step leaves the metadata as it is and does not set \<open>changed\<close>. For the whole call:
  afterwards the stored version is the raw version string, \<open>changed\<close> is reported true
  whenever the versions differed, and with equal versions the call is the kernelspec
  step alone, started with \<open>changed = false\<close> on the untouched metadata.
\<close>

theorem updateNotebookMetadata_language_version:
  assumes "getInterpreter kc = Some i" and "version i = Some v"
    and "language_info md = Some li" and "connectionWellTyped kc"
  shows "snd (updateLanguageInfo (getInterpreter kc) md) = (li_version li \<noteq> Some (JString (raw v)))
       \<and> fst (updateLanguageInfo (getInterpreter kc) md)
           = (if li_version li \<noteq> Some (JString (raw v))
              then md\<lparr>language_info := Some (li\<lparr>li_version := Some (JString (raw v))\<rparr>)\<rparr>
              else md)
       \<and> (\<exists>md' r. updateNotebookMetadata getInterpreter hasKernelModel sha256hex (Some md) kc
                      = Inr (Some md', r)
                 \<and> language_info md' = Some (li\<lparr>li_version := Some (JString (raw v))\<rparr>)
                 \<and> (li_version li \<noteq> Some (JString (raw v)) \<longrightarrow> changed r)
                 \<and> (li_version li = Some (JString (raw v)) \<longrightarrow>
                      language_info md' = language_info md
                      \<and> updateKernelspec hasKernelModel sha256hex md False kc = Inr (md', r)))"
proof -
  let ?new = "Some (JString (raw v))"
  have step: "updateLanguageInfo (getInterpreter kc) md
                = (if li_version li \<noteq> ?new
                   then (md\<lparr>language_info := Some (li\<lparr>li_version := ?new\<rparr>)\<rparr>, True)
                   else (md, False))"
    using assms(1-3) by (simp add: updateLanguageInfo_def)
  obtain md1 c1 where s1: "updateLanguageInfo (getInterpreter kc) md = (md1, c1)"
    by (cases "updateLanguageInfo (getInterpreter kc) md") auto
  obtain md2 r where s2: "updateKernelspec hasKernelModel sha256hex md1 c1 kc = Inr (md2, r)"
    using updateKernelspec_no_error [OF assms(4)] by blast
  have res: "updateNotebookMetadata getInterpreter hasKernelModel sha256hex (Some md) kc
               = Inr (Some md2, r)"
    by (simp add: updateNotebookMetadata_def s1 s2)
  have same: "li\<lparr>li_version := ?new\<rparr> = li" if "li_version li = ?new"
    using that by simp
  have li1: "language_info md1 = Some (li\<lparr>li_version := ?new\<rparr>)"
    using step s1 assms(3) same by (auto split: if_splits)
  have li2: "language_info md2 = Some (li\<lparr>li_version := ?new\<rparr>)"
    using updateKernelspec_language_info [OF s2] li1 by simp
  have ch: "changed r" if "li_version li \<noteq> ?new"
  proof -
    from step s1 that have "c1 = True" by auto
    with s2 show ?thesis by (auto dest: updateKernelspec_keeps_changed)
  qed
  have eq: "language_info md2 = language_info md
            \<and> updateKernelspec hasKernelModel sha256hex md False kc = Inr (md2, r)"
    if "li_version li = ?new"
  proof -
    from step s1 that have "md1 = md" and "\<not> c1" by auto
    with s2 li2 same [OF that] assms(3) show ?thesis by simp
  qed
  from step res li2 ch eq show ?thesis by auto
qed

text \<open>
  The theorem on a document that stores version 3.7.0, and on one that stores 3.8.1,
  for an interpreter of version 3.8.1 whose name the kernelspec already carries.
\<close>

theorem updateNotebookMetadata_language_version_witness:
  "sampleGetInterpreter (Some samplePythonConnection) = Some sampleInterpreter
   \<and> version sampleInterpreter = Some \<lparr>raw = ''3.8.1''\<rparr>
   \<and> language_info (sampleMetadata ''3.7.0'' (Some sampleKernelspec)) = Some (sampleLanguageInfo ''3.7.0'')
   \<and> connectionWellTyped (Some samplePythonConnection)
   \<and> updateLanguageInfo (sampleGetInterpreter (Some samplePythonConnection))
         (sampleMetadata ''3.7.0'' (Some sampleKernelspec))
       = (sampleMetadata ''3.8.1'' (Some sampleKernelspec), True)
   \<and> updateNotebookMetadata sampleGetInterpreter sampleHasKernelModel sampleSha256hex
         (Some (sampleMetadata ''3.7.0'' (Some sampleKernelspec))) (Some samplePythonConnection)
       = Inr (Some (sampleMetadata ''3.8.1'' (Some sampleKernelspec)),
              \<lparr>changed = True, kernelId = None\<rparr>)
   \<and> updateLanguageInfo (sampleGetInterpreter (Some samplePythonConnection))
         (sampleMetadata ''3.8.1'' (Some sampleKernelspec))
       = (sampleMetadata ''3.8.1'' (Some sampleKernelspec), False)
   \<and> updateNotebookMetadata sampleGetInterpreter sampleHasKernelModel sampleSha256hex
         (Some (sampleMetadata ''3.8.1'' (Some sampleKernelspec))) (Some samplePythonConnection)
       = Inr (Some (sampleMetadata ''3.8.1'' (Some sampleKernelspec)),
              \<lparr>changed = False, kernelId = None\<rparr>)"
  using updateNotebookMetadata_language_version
          [of sampleGetInterpreter "Some samplePythonConnection" sampleInterpreter "\<lparr>raw = ''3.8.1''\<rparr>"
              "sampleMetadata ''3.7.0'' (Some sampleKernelspec)" "sampleLanguageInfo ''3.7.0''"
              sampleHasKernelModel sampleSha256hex]
  by (simp add: sample_defs update_defs)

text \<open>
  C3: when the metadata has a language_info block and the helper derives no
  interpreter from the connection (as for an absent connection, when the helper maps
  it to \<open>undefined\<close>), the call sets \<open>language_info\<close> to \<open>undefined\<close> and reports
  \<open>changed = true\<close>.
\<close>

theorem updateNotebookMetadata_clears_language_info:
  assumes "getInterpreter kc = None" and "language_info md = Some li"
    and "connectionWellTyped kc"
  shows "\<exists>md' r. updateNotebookMetadata getInterpreter hasKernelModel sha256hex (Some md) kc
                    = Inr (Some md', r)
               \<and> language_info md' = None \<and> changed r"
proof -
  have s1: "updateLanguageInfo (getInterpreter kc) md = (md\<lparr>language_info := None\<rparr>, True)"
    using assms(1,2) by (simp add: updateLanguageInfo_def)
  obtain md2 r where s2:
    "updateKernelspec hasKernelModel sha256hex (md\<lparr>language_info := None\<rparr>) True kc = Inr (md2, r)"
    using updateKernelspec_no_error [OF assms(3)] by blast
  have "updateNotebookMetadata getInterpreter hasKernelModel sha256hex (Some md) kc
          = Inr (Some md2, r)"
    by (simp add: updateNotebookMetadata_def s1 s2)
  moreover have "language_info md2 = None"
    using updateKernelspec_language_info [OF s2] by simp
  moreover have "changed r"
    using updateKernelspec_keeps_changed [OF s2] .
  ultimately show ?thesis by blast
qed

text \<open>The theorem for an absent connection.\<close>

theorem updateNotebookMetadata_clears_language_info_witness:
  "sampleGetInterpreter None = None
   \<and> language_info (sampleMetadata ''3.7.0'' (Some sampleKernelspec)) = Some (sampleLanguageInfo ''3.7.0'')
   \<and> connectionWellTyped None
   \<and> updateNotebookMetadata sampleGetInterpreter sampleHasKernelModel sampleSha256hex
         (Some (sampleMetadata ''3.7.0'' (Some sampleKernelspec))) None
       = Inr (Some \<lparr>language_info = None, kernelspec = Some sampleKernelspec, orig_nbformat = Some 2\<rparr>,
              \<lparr>changed = True, kernelId = None\<rparr>)"
  using updateNotebookMetadata_clears_language_info
          [of sampleGetInterpreter None "sampleMetadata ''3.7.0'' (Some sampleKernelspec)"
              "sampleLanguageInfo ''3.7.0''" sampleHasKernelModel sampleSha256hex]
  by (simp add: sample_defs update_defs)


text \<open>
  C4, as the code has it. (1) When the connection carries a kernel model or a kernel
  spec and \<open>metadata.kernelspec\<close> is absent, the call creates a kernelspec block whose
  name and display_name fall back to each other (the empty string if both are missing
  or empty), returns the spec's id as \<open>kernelId\<close> and reports \<open>changed = true\<close>. (2) When
  the connection carries only a Python interpreter (kind
  \<^verbatim>\<open>'startUsingPythonInterpreter'\<close>, no kernel spec), then after the call the kernelspec's
  name and display_name are the interpreter's display name (its path when the display
  name is missing or empty). Where one of the two differed from that name before the
  call (or there was no kernelspec), the block is replaced by one that stores the
  sha256 hex digest of the interpreter's path under \<open>metadata.interpreter.hash\<close>, and
  \<open>changed\<close> is true; where both were equal to it already, line 112 skips the write and
  the kernelspec stays as it was, with whatever hash it had.
\<close>

theorem updateNotebookMetadata_kernelspec:
  "(kernelSpecOrModel hasKernelModel kc = Some sm \<and> kernelspec md = None \<longrightarrow>
      (\<exists>md' r. updateNotebookMetadata getInterpreter hasKernelModel sha256hex (Some md) kc
                  = Inr (Some md', r)
             \<and> kernelspec md'
                 = Some \<lparr>ks_name = orElse (sm_name sm) (orElse (sm_display_name sm) ''''),
                         ks_display_name = orElse (sm_display_name sm) (orElse (sm_name sm) ''''),
                         ks_metadata = None\<rparr>
             \<and> kernelId r = sm_id sm \<and> changed r))
   \<and> (kc = Some c \<and> kind c = ''startUsingPythonInterpreter''
        \<and> kernelSpecOrModel hasKernelModel kc = None \<and> interpreter c = Some i \<longrightarrow>
      (\<exists>md' r. updateNotebookMetadata getInterpreter hasKernelModel sha256hex (Some md) kc
                  = Inr (Some md', r)
             \<and> map_option ks_name (kernelspec md') = Some (orElse (displayName i) (path i))
             \<and> map_option ks_display_name (kernelspec md') = Some (orElse (displayName i) (path i))
             \<and> kernelId r = None
             \<and> (if map_option ks_name (kernelspec md) \<noteq> Some (orElse (displayName i) (path i))
                    \<or> map_option ks_display_name (kernelspec md) \<noteq> Some (orElse (displayName i) (path i))
                 then kernelspec md'
                        = Some \<lparr>ks_name = orElse (displayName i) (path i),
                                ks_display_name = orElse (displayName i) (path i),
                                ks_metadata =
                                  Some \<lparr>ks_interpreter = Some \<lparr>hash = sha256hex (path i)\<rparr>\<rparr>\<rparr>
                      \<and> changed r
                 else kernelspec md' = kernelspec md)))"
proof (intro conjI impI)
  assume a: "kernelSpecOrModel hasKernelModel kc = Some sm \<and> kernelspec md = None"
  obtain md1 c1 where s1: "updateLanguageInfo (getInterpreter kc) md = (md1, c1)"
    by (cases "updateLanguageInfo (getInterpreter kc) md") auto
  have k1: "kernelspec md1 = None"
    using updateLanguageInfo_kernelspec [OF s1] a by simp
  show "\<exists>md' r. updateNotebookMetadata getInterpreter hasKernelModel sha256hex (Some md) kc
                  = Inr (Some md', r)
             \<and> kernelspec md'
                 = Some \<lparr>ks_name = orElse (sm_name sm) (orElse (sm_display_name sm) ''''),
                         ks_display_name = orElse (sm_display_name sm) (orElse (sm_name sm) ''''),
                         ks_metadata = None\<rparr>
             \<and> kernelId r = sm_id sm \<and> changed r"
    using a k1 by (simp add: updateNotebookMetadata_def s1 updateKernelspec_def Let_def)
next
  let ?name = "orElse (displayName i) (path i)"
  let ?differs = "map_option ks_name (kernelspec md) \<noteq> Some ?name
                    \<or> map_option ks_display_name (kernelspec md) \<noteq> Some ?name"
  let ?block = "\<lparr>ks_name = ?name, ks_display_name = ?name,
                 ks_metadata = Some \<lparr>ks_interpreter = Some \<lparr>hash = sha256hex (path i)\<rparr>\<rparr>\<rparr>"
  assume b: "kc = Some c \<and> kind c = ''startUsingPythonInterpreter''
        \<and> kernelSpecOrModel hasKernelModel kc = None \<and> interpreter c = Some i"
  then have kc: "kc = Some c" and kd: "kind c = ''startUsingPythonInterpreter''"
    and ks: "kernelSpecOrModel hasKernelModel (Some c) = None" and ic: "interpreter c = Some i"
    by auto
  obtain md1 c1 where s1: "updateLanguageInfo (getInterpreter kc) md = (md1, c1)"
    by (cases "updateLanguageInfo (getInterpreter kc) md") auto
  have k1: "kernelspec md1 = kernelspec md"
    using updateLanguageInfo_kernelspec [OF s1] .
  have s2: "updateKernelspec hasKernelModel sha256hex md1 c1 kc
              = (if ?differs
                 then Inr (md1\<lparr>kernelspec := Some ?block\<rparr>, \<lparr>changed = True, kernelId = None\<rparr>)
                 else Inr (md1, \<lparr>changed = c1, kernelId = None\<rparr>))"
    unfolding kc using updateKernelspec_python [OF kd ks ic, of sha256hex md1 c1] unfolding k1 .
  show "\<exists>md' r. updateNotebookMetadata getInterpreter hasKernelModel sha256hex (Some md) kc
                  = Inr (Some md', r)
             \<and> map_option ks_name (kernelspec md') = Some ?name
             \<and> map_option ks_display_name (kernelspec md') = Some ?name
             \<and> kernelId r = None
             \<and> (if ?differs then kernelspec md' = Some ?block \<and> changed r
                 else kernelspec md' = kernelspec md)"
  proof (cases ?differs)
    case True
    then have s2': "updateKernelspec hasKernelModel sha256hex md1 c1 kc
                 = Inr (md1\<lparr>kernelspec := Some ?block\<rparr>, \<lparr>changed = True, kernelId = None\<rparr>)"
      unfolding s2 by simp
    have "updateNotebookMetadata getInterpreter hasKernelModel sha256hex (Some md) kc
                 = Inr (Some (md1\<lparr>kernelspec := Some ?block\<rparr>), \<lparr>changed = True, kernelId = None\<rparr>)"
      by (simp add: updateNotebookMetadata_def s1 s2')
    with True show ?thesis by simp
  next
    case False
    then have s2': "updateKernelspec hasKernelModel sha256hex md1 c1 kc
                 = Inr (md1, \<lparr>changed = c1, kernelId = None\<rparr>)"
      unfolding s2 by simp
    have "updateNotebookMetadata getInterpreter hasKernelModel sha256hex (Some md) kc
                 = Inr (Some md1, \<lparr>changed = c1, kernelId = None\<rparr>)"
      by (simp add: updateNotebookMetadata_def s1 s2')
    with False k1 show ?thesis by simp
  qed
qed

text \<open>
  The theorem on a document with no kernelspec, for a connection with a kernel spec
  and for a connection with only an interpreter.
\<close>

theorem updateNotebookMetadata_kernelspec_witness:
  "kernelSpecOrModel sampleHasKernelModel (Some sampleSpecConnection) = Some sampleSpec
   \<and> kernelspec (sampleMetadata ''3.8.1'' None) = None
   \<and> updateNotebookMetadata sampleGetInterpreter sampleHasKernelModel sampleSha256hex
         (Some (sampleMetadata ''3.8.1'' None)) (Some sampleSpecConnection)
       = Inr (Some (sampleMetadata ''3.8.1''
                      (Some \<lparr>ks_name = ''python3'', ks_display_name = ''python3'', ks_metadata = None\<rparr>)),
              \<lparr>changed = True, kernelId = Some ''spec-1''\<rparr>)
   \<and> kind samplePythonConnection = ''startUsingPythonInterpreter''
   \<and> kernelSpecOrModel sampleHasKernelModel (Some samplePythonConnection) = None
   \<and> interpreter samplePythonConnection = Some sampleInterpreter
   \<and> updateNotebookMetadata sampleGetInterpreter sampleHasKernelModel sampleSha256hex
         (Some (sampleMetadata ''3.8.1'' None)) (Some samplePythonConnection)
       = Inr (Some (sampleMetadata ''3.8.1''
                      (Some \<lparr>ks_name = ''Python 3.8.1'', ks_display_name = ''Python 3.8.1'',
                             ks_metadata =
                               Some \<lparr>ks_interpreter = Some \<lparr>hash = ''sha256:/usr/bin/python3''\<rparr>\<rparr>\<rparr>)),
              \<lparr>changed = True, kernelId = None\<rparr>)"
  using updateNotebookMetadata_kernelspec
          [of sampleHasKernelModel "Some sampleSpecConnection" sampleSpec "sampleMetadata ''3.8.1'' None"
              sampleGetInterpreter sampleSha256hex samplePythonConnection sampleInterpreter]
        updateNotebookMetadata_kernelspec
          [of sampleHasKernelModel "Some samplePythonConnection" sampleSpec "sampleMetadata ''3.8.1'' None"
              sampleGetInterpreter sampleSha256hex samplePythonConnection sampleInterpreter]
  by (simp add: sample_defs update_defs)


text \<open>
  The claim as the spec states it fails where the kernelspec already carries the
  interpreter's name: the connection has only a Python interpreter, nothing is written,
  and the kernelspec has no interpreter hash after the call.
\<close>

theorem python_connection_keeps_hash_counterexample:
  "kind samplePythonConnection = ''startUsingPythonInterpreter''
   \<and> kernelSpecOrModel sampleHasKernelModel (Some samplePythonConnection) = None
   \<and> interpreter samplePythonConnection = Some sampleInterpreter
   \<and> updateNotebookMetadata sampleGetInterpreter sampleHasKernelModel sampleSha256hex
         (Some (sampleMetadata ''3.8.1'' (Some sampleKernelspec))) (Some samplePythonConnection)
       = Inr (Some (sampleMetadata ''3.8.1'' (Some sampleKernelspec)),
              \<lparr>changed = False, kernelId = None\<rparr>)
   \<and> map_option ks_metadata (kernelspec (sampleMetadata ''3.8.1'' (Some sampleKernelspec)))
       = Some None
   \<and> map_option ks_metadata (kernelspec (sampleMetadata ''3.8.1'' (Some sampleKernelspec)))
       \<noteq> Some (Some \<lparr>ks_interpreter = Some \<lparr>hash = sampleSha256hex (path sampleInterpreter)\<rparr>\<rparr>)"
  by (simp add: sample_defs update_defs)

section \<open>Properties of BaseNotebookModel\<close>

lemmas model_defs =
  BaseNotebookModel_new_def ensureNotebookJson_def getStoredKernelId_def memento_get_def
  getDefaultNotebookContent_def emptyContent_def dispose_def trust_def generateNotebookJson_def
  getRawContent_def get_isDisposed_def ActiveKernelIdList_def

lemmas sample_model_defs =
  sampleModel_def sampleMemento_def sampleList_def sampleCrypto_def

lemma applyOp_m_isDisposed:
  "m_isDisposed s = Some True \<Longrightarrow> m_isDisposed (applyOp getJupyterCells s operation) = Some True"
  by (cases operation) (simp_all add: model_defs Let_def)

lemma applyOps_m_isDisposed:
  "m_isDisposed s = Some True \<Longrightarrow> m_isDisposed (applyOps getJupyterCells s ops) = Some True"
  unfolding applyOps_def
  by (induction ops arbitrary: s) (simp_all add: applyOp_m_isDisposed)

lemma applyOp_globalMemento:
  "globalMemento (applyOp getJupyterCells s operation) = globalMemento s"
  by (cases operation) (simp_all add: model_defs Let_def)

lemma applyOps_globalMemento:
  "globalMemento (applyOps getJupyterCells s ops) = globalMemento s"
  unfolding applyOps_def
  by (induction ops arbitrary: s) (simp_all add: applyOp_globalMemento)

subsection \<open>The claims\<close>

text \<open>
  C5, as the code has it: the class keeps a trusted and a disposed flag. \<open>trust()\<close> makes
  \<open>isTrusted\<close> true and \<open>dispose()\<close> makes \<open>isDisposed\<close> true; a new model is trusted as
  the constructor was told and is not disposed. It keeps no dirty flag: the \<open>isDirty\<close>
  getter of lines 161 to 163 returns \<open>false\<close> in every state.
\<close>

theorem base_model_flags:
  "get_isDirty s = False
   \<and> get_isTrusted (trust s) \<and> get_isDisposed (dispose s)
   \<and> get_isTrusted (BaseNotebookModel_new t f m c nbj ind pn) = t
   \<and> get_isDisposed (BaseNotebookModel_new t f m c nbj ind pn) = False"
  by (simp add: model_defs get_isDirty_def get_isTrusted_def Let_def)

text \<open>
  The claim as the spec states it has \<open>isDirty\<close> report whether the document was
  mutated. It does not: the language_info block of a new model's document is cleared
  in place, \<^verbatim>\<open>updateNotebookMetadata\<close> reports the change, the document differs from the
  one the model was built with, and \<open>isDirty\<close> is still \<open>false\<close>.
\<close>

theorem isDirty_after_edit_counterexample:
  "notebookJson sampleFreshModel = Some (getDefaultNotebookContent (Some 3))
   \<and> updateNotebookMetadata sampleGetInterpreter sampleHasKernelModel sampleSha256hex
         (metadata (getDefaultNotebookContent (Some 3) :: string INotebookContent)) None
       = Inr (Some sampleClearedMetadata, \<lparr>changed = True, kernelId = None\<rparr>)
   \<and> notebookJson sampleEditedModel \<noteq> notebookJson sampleFreshModel
   \<and> get_isDirty sampleEditedModel = False"
  by (simp add: model_defs sampleFreshModel_def sampleEditedModel_def sampleClearedMetadata_def
        sampleCrypto_def get_isDirty_def sample_defs update_defs)

text \<open>
  C7: for every stored list and every file, \<^verbatim>\<open>getStoredKernelId\<close> returns the
  \<open>kernelId\<close> of the first stored entry whose \<open>fileHash\<close> is the hash of the file's URI
  string, and \<open>undefined\<close> when no entry has that hash (so also for an empty list, and
  when nothing is stored under the key).
\<close>

theorem getStoredKernelId_first_match:
  "(let list = memento_get (globalMemento s) ActiveKernelIdList [];
        h = crypto s (m_file s)
    in (\<forall>i < length list.
          fileHash (list ! i) = h \<and> (\<forall>j < i. fileHash (list ! j) \<noteq> h) \<longrightarrow>
          getStoredKernelId s = entry_kernelId (list ! i))
       \<and> ((\<forall>e \<in> set list. fileHash e \<noteq> h) \<longrightarrow> getStoredKernelId s = None))"
proof -
  define list where "list = memento_get (globalMemento s) ActiveKernelIdList []"
  define h where "h = crypto s (m_file s)"
  have unfold: "getStoredKernelId s =
      (case find (\<lambda>l. fileHash l = h) list of None \<Rightarrow> None | Some entry \<Rightarrow> entry_kernelId entry)"
    by (simp add: getStoredKernelId_def list_def h_def)
  have first: "getStoredKernelId s = entry_kernelId (list ! i)"
    if "i < length list" "fileHash (list ! i) = h" "\<forall>j < i. fileHash (list ! j) \<noteq> h" for i
  proof -
    have "find (\<lambda>l. fileHash l = h) list = Some (list ! i)"
      using that by (subst find_Some_iff) blast
    then show ?thesis by (simp add: unfold)
  qed
  have none: "getStoredKernelId s = None" if "\<forall>e \<in> set list. fileHash e \<noteq> h"
  proof -
    have "find (\<lambda>l. fileHash l = h) list = None"
      using that by (simp add: find_None_iff)
    then show ?thesis by (simp add: unfold)
  qed
  from first none show ?thesis
    unfolding list_def [symmetric] h_def [symmetric] Let_def by blast
qed

text \<open>
  The theorem on a list of three entries, the second and third of which are for the
  model's file; on a file with no entry; and on an empty memento.
\<close>

theorem getStoredKernelId_first_match_witness:
  "memento_get (globalMemento sampleModel) ActiveKernelIdList [] = sampleList
   \<and> crypto sampleModel (m_file sampleModel) = ''hash:file:///a.ipynb''
   \<and> fileHash (sampleList ! 0) \<noteq> ''hash:file:///a.ipynb''
   \<and> fileHash (sampleList ! 1) = ''hash:file:///a.ipynb''
   \<and> fileHash (sampleList ! 2) = ''hash:file:///a.ipynb''
   \<and> getStoredKernelId sampleModel = Some ''kernel-a1''
   \<and> getStoredKernelId (sampleModel\<lparr>m_file := ''file:///c.ipynb''\<rparr>) = None
   \<and> getStoredKernelId sampleFreshModel = None"
  using getStoredKernelId_first_match [of sampleModel]
  by (simp add: model_defs sample_model_defs sampleFreshModel_def Let_def)

text \<open>
  C8: \<open>MaximumKernelIdListSize\<close> is 40; a write to the list, as the spec describes it
  (storeKernelId), leaves at most that many entries, whatever the list held
  before; and the constructor and the methods of the class, which only read the list,
  leave the memento as it is.
\<close>

theorem kernel_id_list_capped:
  "MaximumKernelIdListSize = 40
   \<and> length (storeKernelId list h kid) \<le> MaximumKernelIdListSize
   \<and> globalMemento (applyOps getJupyterCells (BaseNotebookModel_new t f m c nbj ind pn) ops) = m"
proof -
  have "globalMemento (BaseNotebookModel_new t f m c nbj ind pn) = m"
    by (simp add: BaseNotebookModel_new_def ensureNotebookJson_def Let_def)
  then show ?thesis
    by (simp add: MaximumKernelIdListSize_def storeKernelId_def Let_def applyOps_globalMemento)
qed

text \<open>
  C9: after every construction the document has a metadata block. When the model is
  constructed with no notebook JSON, or with JSON without a metadata block, the
  document is the default content for the python number (3 when none is given):
  nbformat 4, nbformat_minor 2, and a language_info block with name \<open>python\<close>,
  file_extension \<open>.py\<close> and the python number as version. JSON that has a metadata block
  is kept.
\<close>

theorem constructor_ensures_metadata:
  "(\<exists>j md. notebookJson (BaseNotebookModel_new t f m c nbj ind pn) = Some j \<and> metadata j = Some md)
   \<and> ((case nbj of None \<Rightarrow> True | Some j \<Rightarrow> metadata j = None) \<longrightarrow>
        notebookJson (BaseNotebookModel_new t f m c nbj ind pn) = Some (getDefaultNotebookContent pn)
        \<and> (\<exists>li. getDefaultNotebookContent pn
                   = \<lparr>metadata = Some \<lparr>language_info = Some li, kernelspec = None,
                                       orig_nbformat = Some 2\<rparr>,
                      nbformat = Some 4, nbformat_minor = Some 2, cells = (None :: 'jc list option)\<rparr>
                 \<and> li_name li = ''python'' \<and> file_extension li = Some ''.py''
                 \<and> li_version li = Some (JNumber (case pn of None \<Rightarrow> 3 | Some n \<Rightarrow> n))))
   \<and> ((\<exists>j md. nbj = Some j \<and> metadata j = Some md) \<longrightarrow>
        notebookJson (BaseNotebookModel_new t f m c nbj ind pn) = nbj)"
  by (cases nbj; cases pn)
     (auto simp: BaseNotebookModel_new_def ensureNotebookJson_def getDefaultNotebookContent_def
                 emptyContent_def Let_def)

text \<open>
  The theorem for a model built with no JSON; beside it, a model built from JSON with
  cells but no metadata block, and one built from JSON with a metadata block.
\<close>

theorem constructor_ensures_metadata_witness:
  "notebookJson (BaseNotebookModel_new False ''file:///a.ipynb'' sampleMemento sampleCrypto
                   (None :: string INotebookContent option) None None)
     = Some \<lparr>metadata =
               Some \<lparr>language_info =
                       Some \<lparr>codemirror_mode = Some \<lparr>cm_name = ''ipython'', cm_version = 3\<rparr>,
                             file_extension = Some ''.py'', mimetype = Some ''text/x-python'',
                             li_name = ''python'', nbconvert_exporter = Some ''python'',
                             pygments_lexer = Some ''ipython3'', li_version = Some (JNumber 3)\<rparr>,
                     kernelspec = None, orig_nbformat = Some 2\<rparr>,
             nbformat = Some 4, nbformat_minor = Some 2, cells = None\<rparr>
   \<and> notebookJson (BaseNotebookModel_new False ''file:///a.ipynb'' sampleMemento sampleCrypto
                     (Some (emptyContent\<lparr>nbformat := Some 3, cells := Some [''c'']\<rparr>)) None (Some 2))
       = Some (getDefaultNotebookContent (Some 2))
   \<and> notebookJson (BaseNotebookModel_new False ''file:///a.ipynb'' sampleMemento sampleCrypto
                     (Some (emptyContent\<lparr>metadata := Some sampleClearedMetadata, cells := Some [''c'']\<rparr>))
                     None (Some 2))
       = Some (emptyContent\<lparr>metadata := Some sampleClearedMetadata, cells := Some [''c'']\<rparr>)"
  using constructor_ensures_metadata
          [of False "''file:///a.ipynb''" sampleMemento sampleCrypto
              "None :: string INotebookContent option" None None]
  by (simp add: model_defs sample_model_defs sampleClearedMetadata_def showInt_def showNat.simps
        Let_def)

text \<open>
  C10: once \<open>dispose()\<close> has been called, and whatever methods of the class are called
  after it, \<open>isDisposed\<close> is true and the \<open>cells\<close> getter returns the empty list, whatever
  the \<open>getICells\<close> of the subclass would return.
\<close>

theorem disposed_model_has_no_cells:
  "get_isDisposed (applyOps getJupyterCells (dispose s) ops)
   \<and> get_cells getICells (applyOps getJupyterCells (dispose s) ops) = []"
proof -
  have "m_isDisposed (dispose s) = Some True"
    by (simp add: dispose_def)
  then have "m_isDisposed (applyOps getJupyterCells (dispose s) ops) = Some True"
    by (rule applyOps_m_isDisposed)
  then show ?thesis
    by (simp add: get_isDisposed_def get_cells_def)
qed

text \<open>
  The theorem on a model whose subclass supplies two cells, disposed and then trusted
  and read.
\<close>

theorem disposed_model_has_no_cells_witness:
  "get_cells sampleICells sampleModel = [''cell-1'', ''cell-2'']
   \<and> get_isDisposed (applyOps getJupyterCells_base (dispose sampleModel) [OpTrust, OpGetRawContent])
   \<and> get_cells sampleICells
        (applyOps getJupyterCells_base (dispose sampleModel) [OpTrust, OpGetRawContent]) = []"
  using disposed_model_has_no_cells
          [of getJupyterCells_base sampleModel "[OpTrust, OpGetRawContent]" sampleICells]
  by (simp add: model_defs sample_model_defs get_cells_def sampleICells_def Let_def)

end
